theory Spec2Isabelle
  imports Main
begin

section \<open>Memory model\<close>

text \<open>
  The header \<^verbatim>\<open>intrusive_list.h\<close> works on raw, non-owning pointers that are
  threaded through the caller's objects.  An address is a natural number, a pointer is an
  optional address (\<open>None\<close> is \<^verbatim>\<open>nullptr\<close>) and the heap gives the link node
  stored at every address.  A value of type \<^verbatim>\<open>T\<close> is converted to its link node by
  \<^verbatim>\<open>static_cast\<close>, so an element and its link node are the same address here.
  Every non-null pointer designates a live node: keeping elements alive while they are
  linked is the caller's obligation and is not part of the model.  What the model does
  keep is every dereference of a possibly null pointer and every signed overflow of the
  element count: both are undefined behaviour in C++ and are error values here.
\<close>

type_synonym addr = nat

type_synonym ptr = "addr option"

datatype error = NullDeref | SignedOverflow

record list_element =
  prev :: ptr
  "next" :: ptr

type_synonym heap = "addr \<Rightarrow> list_element"

section \<open>Link node: \<^verbatim>\<open>list_element<Tag>\<close>\<close>

text \<open>
  \<^verbatim>\<open>list_element() = default\<close> with the member initialisers
  \<^verbatim>\<open>prev = nullptr\<close>, \<^verbatim>\<open>next = nullptr\<close>.
\<close>

definition list_element_default :: list_element where
  "list_element_default = \<lparr>prev = None, next = None\<rparr>"

text \<open>
  \<^verbatim>\<open>list_element(const list_element& other) { prev = other.prev; next = other.next; }\<close>
  constructs a node at address \<open>this\<close>: the member initialisers run first, then the two
  assignments of the body, in order.
\<close>

definition list_element_copy :: "heap \<Rightarrow> addr \<Rightarrow> addr \<Rightarrow> heap" where
  "list_element_copy h this other =
     (let h0 = h(this := list_element_default);
          h1 = h0(this := (h0 this)\<lparr>prev := prev (h0 other)\<rparr>);
          h2 = h1(this := (h1 this)\<lparr>next := next (h1 other)\<rparr>)
      in h2)"

text \<open>
  \<^verbatim>\<open>unlink()\<close>: four statements, each reading the fields of \<open>this\<close> from the heap
  as the statements before it have left it.
\<close>

definition unlink :: "heap \<Rightarrow> addr \<Rightarrow> heap" where
  "unlink h this =
     (let h1 = (case prev (h this) of
                  None \<Rightarrow> h
                | Some p \<Rightarrow> h(p := (h p)\<lparr>next := next (h this)\<rparr>));
          h2 = (case next (h1 this) of
                  None \<Rightarrow> h1
                | Some n \<Rightarrow> h1(n := (h1 n)\<lparr>prev := prev (h1 this)\<rparr>));
          h3 = h2(this := (h2 this)\<lparr>next := None\<rparr>);
          h4 = h3(this := (h3 this)\<lparr>prev := None\<rparr>)
      in h4)"

text \<open>The two field assignments \<^verbatim>\<open>p->prev = v\<close> and \<^verbatim>\<open>p->next = v\<close>.\<close>

definition set_prev :: "heap \<Rightarrow> addr \<Rightarrow> ptr \<Rightarrow> heap" where
  "set_prev h p v = h(p := (h p)\<lparr>prev := v\<rparr>)"

definition set_next :: "heap \<Rightarrow> addr \<Rightarrow> ptr \<Rightarrow> heap" where
  "set_next h p v = h(p := (h p)\<lparr>next := v\<rparr>)"

text \<open>A heap of default-constructed nodes, the state of the caller's elements before use.\<close>

definition fresh_heap :: heap where
  "fresh_heap = (\<lambda>a. list_element_default)"

section \<open>Iterator: \<^verbatim>\<open>list<T, Tag>::list_iterator\<close>\<close>

record list_iterator =
  current :: ptr

text \<open>
  \<^verbatim>\<open>operator*\<close> and \<^verbatim>\<open>operator->\<close> cast \<open>current\<close> to \<^verbatim>\<open>T*\<close>; using the result
  dereferences \<open>current\<close>.
\<close>

definition deref :: "list_iterator \<Rightarrow> error + addr" where
  "deref it = (case current it of None \<Rightarrow> Inl NullDeref | Some c \<Rightarrow> Inr c)"

text \<open>
  Prefix \<^verbatim>\<open>operator++\<close> and \<^verbatim>\<open>operator--\<close> return \<^verbatim>\<open>*this\<close>: the result is the
  moved iterator.
\<close>

definition pre_inc :: "heap \<Rightarrow> list_iterator \<Rightarrow> error + list_iterator" where
  "pre_inc h it =
     (case current it of
        None \<Rightarrow> Inl NullDeref
      | Some c \<Rightarrow> Inr (it\<lparr>current := next (h c)\<rparr>))"

definition pre_dec :: "heap \<Rightarrow> list_iterator \<Rightarrow> error + list_iterator" where
  "pre_dec h it =
     (case current it of
        None \<Rightarrow> Inl NullDeref
      | Some c \<Rightarrow> Inr (it\<lparr>current := prev (h c)\<rparr>))"

text \<open>
  Postfix \<^verbatim>\<open>operator++(int)\<close> and \<^verbatim>\<open>operator--(int)\<close>: the result is the pair of
  the returned copy \<^verbatim>\<open>this_cpy\<close> and the iterator itself after the call.  Both bodies
  assign \<^verbatim>\<open>current = current->next\<close>.
\<close>

definition post_inc :: "heap \<Rightarrow> list_iterator \<Rightarrow> error + list_iterator \<times> list_iterator" where
  "post_inc h it =
     (let this_cpy = it
      in case current it of
           None \<Rightarrow> Inl NullDeref
         | Some c \<Rightarrow> Inr (this_cpy, it\<lparr>current := next (h c)\<rparr>))"

definition post_dec :: "heap \<Rightarrow> list_iterator \<Rightarrow> error + list_iterator \<times> list_iterator" where
  "post_dec h it =
     (let this_cpy = it
      in case current it of
           None \<Rightarrow> Inl NullDeref
         | Some c \<Rightarrow> Inr (this_cpy, it\<lparr>current := next (h c)\<rparr>))"

definition iterator_eq :: "list_iterator \<Rightarrow> list_iterator \<Rightarrow> bool" where
  "iterator_eq it rhs = (current rhs = current it)"

definition iterator_ne :: "list_iterator \<Rightarrow> list_iterator \<Rightarrow> bool" where
  "iterator_ne it rhs = (current rhs \<noteq> current it)"

section \<open>Container: \<^verbatim>\<open>list<T, Tag>\<close>\<close>

text \<open>
  The three data members.  \<^verbatim>\<open>size\<close> is a C++ \<^verbatim>\<open>int\<close>: the model keeps it as an
  integer and makes \<^verbatim>\<open>size++\<close> at \<open>INT_MAX\<close> and \<^verbatim>\<open>size--\<close> at \<open>INT_MIN\<close> the
  error \<open>SignedOverflow\<close>.  \<^verbatim>\<open>tail\<close> is declared as a pointer, like \<^verbatim>\<open>head\<close>.
\<close>

record intrusive_list =
  size_l :: int
  head :: ptr
  tail :: ptr

definition INT_MAX :: int where
  "INT_MAX = 2147483647"

definition INT_MIN :: int where
  "INT_MIN = - 2147483648"

text \<open>
  \<^verbatim>\<open>list() noexcept { tail = list_element(); head = &tail; }\<close>.  With \<^verbatim>\<open>tail\<close>
  declared as a pointer the two assignments do not type-check as written; they are read
  the way the member functions below use \<^verbatim>\<open>tail\<close>, as a pointer to a node:
  \<^verbatim>\<open>tail\<close> designates a default-constructed node, the sentinel, at the address \<open>s\<close>
  that the container provides for it, and \<^verbatim>\<open>head\<close> points to that node.  The member
  initialiser leaves \<^verbatim>\<open>size\<close> at 0.
\<close>

definition list_ctor :: "heap \<Rightarrow> addr \<Rightarrow> heap \<times> intrusive_list" where
  "list_ctor h s =
     (h(s := list_element_default), \<lparr>size_l = 0, head = Some s, tail = Some s\<rparr>)"

text \<open>
  \<^verbatim>\<open>list(list&& l) : head(std::move(l.head)), tail(std::move(l.tail)), size(std::move(l.size)) {}\<close>:
  moving a pointer or an \<^verbatim>\<open>int\<close> copies it.  The result is the new container and the
  source after the call.
\<close>

definition list_move_ctor :: "intrusive_list \<Rightarrow> intrusive_list \<times> intrusive_list" where
  "list_move_ctor l = (\<lparr>size_l = size_l l, head = head l, tail = tail l\<rparr>, l)"

text \<open>
  \<^verbatim>\<open>list& operator=(list&& l_) noexcept { return l_; }\<close>: the result is the assigned-to
  container and the source, both after the call.
\<close>

definition list_move_assign :: "intrusive_list \<Rightarrow> intrusive_list \<Rightarrow> intrusive_list \<times> intrusive_list" where
  "list_move_assign this l' = (this, l')"

text \<open>
  \<^verbatim>\<open>clear()\<close>: the loop runs while \<^verbatim>\<open>front != nullptr\<close> and may not return on a
  chain that never reaches null, so it is a partial function: \<open>None\<close> is a loop that
  runs forever.  No data member of the container is assigned.
\<close>

partial_function (option) clear_loop :: "heap \<Rightarrow> ptr \<Rightarrow> heap option" where
  "clear_loop h front =
     (case front of
        None \<Rightarrow> Some h
      | Some f \<Rightarrow>
          (let front_next = next (h f);
               h1 = unlink h f
           in clear_loop h1 front_next))"

definition clear :: "heap \<Rightarrow> intrusive_list \<Rightarrow> (heap \<times> intrusive_list) option" where
  "clear h l =
     (case clear_loop h (head l) of
        None \<Rightarrow> None
      | Some h' \<Rightarrow> Some (h', l))"

text \<open>\<^verbatim>\<open>push_back(T& elem)\<close>.\<close>

definition push_back :: "heap \<Rightarrow> intrusive_list \<Rightarrow> addr \<Rightarrow> error + heap \<times> intrusive_list" where
  "push_back h l elem =
     (if size_l l = 0 then
        (let l1 = l\<lparr>head := Some elem\<rparr>
         in case tail l1 of
              None \<Rightarrow> Inl NullDeref
            | Some t \<Rightarrow>
                (let h1 = set_prev h t (head l1);
                     h2 = set_next h1 elem (tail l1)
                 in Inr (h2, l1\<lparr>size_l := 1\<rparr>)))
      else
        (case tail l of
           None \<Rightarrow> Inl NullDeref
         | Some t \<Rightarrow>
             (case prev (h t) of
                None \<Rightarrow> Inl NullDeref
              | Some p \<Rightarrow>
                  (let h1 = set_next h p (Some elem);
                       h2 = set_prev h1 elem (prev (h1 t));
                       h3 = set_prev h2 t (Some elem)
                   in if size_l l = INT_MAX then Inl SignedOverflow
                      else Inr (h3, l\<lparr>size_l := size_l l + 1\<rparr>)))))"

text \<open>\<^verbatim>\<open>pop_back()\<close>.\<close>

definition pop_back :: "heap \<Rightarrow> intrusive_list \<Rightarrow> error + heap \<times> intrusive_list" where
  "pop_back h l =
     (if size_l l = 0 then Inr (h, l)
      else if size_l l = 1 then
        (case head l of
           None \<Rightarrow> Inl NullDeref
         | Some first \<Rightarrow> Inr (set_next h first None, l\<lparr>head := tail l, size_l := 0\<rparr>))
      else
        (case tail l of
           None \<Rightarrow> Inl NullDeref
         | Some t \<Rightarrow>
             (let l1 = l\<lparr>tail := prev (h t)\<rparr>
              in case tail l1 of
                   None \<Rightarrow> Inl NullDeref
                 | Some t1 \<Rightarrow>
                     (case next (h t1) of
                        None \<Rightarrow> Inl NullDeref
                      | Some n \<Rightarrow>
                          (let h1 = set_prev h n None;
                               h2 = set_next h1 t1 None
                           in if size_l l = INT_MIN then Inl SignedOverflow
                              else Inr (h2, l1\<lparr>size_l := size_l l - 1\<rparr>))))))"

text \<open>
  \<^verbatim>\<open>back()\<close> and \<^verbatim>\<open>front()\<close> return \<^verbatim>\<open>*static_cast<T*>(tail)\<close> and
  \<^verbatim>\<open>*static_cast<T*>(head)\<close>: the address of the object the returned reference is
  bound to.
\<close>

definition back_l :: "intrusive_list \<Rightarrow> error + addr" where
  "back_l l = (case tail l of None \<Rightarrow> Inl NullDeref | Some t \<Rightarrow> Inr t)"

definition front :: "intrusive_list \<Rightarrow> error + addr" where
  "front l = (case head l of None \<Rightarrow> Inl NullDeref | Some first \<Rightarrow> Inr first)"

text \<open>\<^verbatim>\<open>push_front(T& elem)\<close>.\<close>

definition push_front :: "heap \<Rightarrow> intrusive_list \<Rightarrow> addr \<Rightarrow> error + heap \<times> intrusive_list" where
  "push_front h l elem =
     (if size_l l = 0 then
        (let l1 = l\<lparr>tail := Some elem\<rparr>;
             l2 = l1\<lparr>head := Some elem\<rparr>;
             h1 = set_prev h elem (head l2);
             h2 = set_next h1 elem (tail l2)
         in Inr (h2, l2\<lparr>size_l := 1\<rparr>))
      else
        (case head l of
           None \<Rightarrow> Inl NullDeref
         | Some first \<Rightarrow>
             (let h1 = set_prev h first (Some elem);
                  h2 = set_next h1 elem (head l)
              in Inr (h2, l\<lparr>head := Some elem\<rparr>))))"

text \<open>\<^verbatim>\<open>pop_front()\<close>.\<close>

definition pop_front :: "heap \<Rightarrow> intrusive_list \<Rightarrow> error + heap \<times> intrusive_list" where
  "pop_front h l =
     (if size_l l = 0 then Inr (h, l)
      else if size_l l = 1 then
        (case tail l of
           None \<Rightarrow> Inl NullDeref
         | Some t \<Rightarrow>
             (let h1 = set_prev h t None
              in case head l of
                   None \<Rightarrow> Inl NullDeref
                 | Some first \<Rightarrow>
                     (let h2 = set_next h1 first None
                      in Inr (h2, l\<lparr>tail := None, head := None, size_l := 0\<rparr>))))
      else
        (case head l of
           None \<Rightarrow> Inl NullDeref
         | Some first \<Rightarrow>
             (let l1 = l\<lparr>head := next (h first)\<rparr>
              in case head l1 of
                   None \<Rightarrow> Inl NullDeref
                 | Some first1 \<Rightarrow>
                     (case prev (h first1) of
                        None \<Rightarrow> Inl NullDeref
                      | Some p \<Rightarrow>
                          (let h1 = set_next h p None;
                               h2 = set_prev h1 first1 None
                           in if size_l l = INT_MIN then Inl SignedOverflow
                              else Inr (h2, l1\<lparr>size_l := size_l l - 1\<rparr>))))))"

text \<open>\<^verbatim>\<open>empty()\<close>, \<^verbatim>\<open>begin()\<close> and \<^verbatim>\<open>end()\<close>; the last is \<^verbatim>\<open>list_iterator(tail)++\<close>.\<close>

definition empty_l :: "intrusive_list \<Rightarrow> bool" where
  "empty_l l = (size_l l = 0)"

definition begin_l :: "intrusive_list \<Rightarrow> list_iterator" where
  "begin_l l = \<lparr>current = head l\<rparr>"

definition end_l :: "heap \<Rightarrow> intrusive_list \<Rightarrow> error + list_iterator" where
  "end_l h l =
     (case post_inc h \<lparr>current = tail l\<rparr> of
        Inl e \<Rightarrow> Inl e
      | Inr (this_cpy, moved) \<Rightarrow> Inr this_cpy)"

text \<open>
  \<^verbatim>\<open>insert(const_iterator pos, T& elem)\<close>: the result is the heap, the container (no
  data member is assigned) and the returned iterator.
\<close>

definition insert_l ::
  "heap \<Rightarrow> intrusive_list \<Rightarrow> list_iterator \<Rightarrow> addr \<Rightarrow> error + heap \<times> intrusive_list \<times> list_iterator" where
  "insert_l h l pos elem =
     (case current pos of
        None \<Rightarrow> Inl NullDeref
      | Some p \<Rightarrow>
          (let h1 = (case prev (h p) of
                       None \<Rightarrow> h
                     | Some q \<Rightarrow> set_next h q (Some elem));
               h2 = (case next (h1 p) of
                       None \<Rightarrow> h1
                     | Some n \<Rightarrow> set_prev h1 n (Some elem));
               h3 = set_prev h2 elem (prev (h2 p));
               h4 = set_next h3 elem (next (h3 p))
           in Inr (h4, l, \<lparr>current = Some elem\<rparr>)))"

text \<open>
  \<^verbatim>\<open>erase(const_iterator pos)\<close>: the result is the heap, the container (no data member
  is assigned) and the returned iterator; \<^verbatim>\<open>return nullptr\<close> is the iterator on null.
\<close>

definition erase ::
  "heap \<Rightarrow> intrusive_list \<Rightarrow> list_iterator \<Rightarrow> error + heap \<times> intrusive_list \<times> list_iterator" where
  "erase h l pos =
     (case current pos of
        None \<Rightarrow> Inl NullDeref
      | Some p \<Rightarrow>
          (let prev_cpy = prev (h p);
               next_cpy = next (h p);
               h1 = unlink h p
           in if prev_cpy \<noteq> None then Inr (h1, l, \<lparr>current = prev_cpy\<rparr>)
              else if next_cpy \<noteq> None then Inr (h1, l, \<lparr>current = next_cpy\<rparr>)
              else Inr (h1, l, \<lparr>current = None\<rparr>)))"

text \<open>
  Front-to-back iteration as a caller writes it with the operations above,
  \<^verbatim>\<open>for (auto it = l.begin(); it != l.end(); ++it) visit(*it);\<close>, collecting the
  addresses visited.  \<open>None\<close> is a loop that runs forever, \<open>Some (Inl e)\<close> undefined
  behaviour on the way, \<open>Some (Inr xs)\<close> the elements visited.
\<close>

partial_function (option) iterate_loop ::
  "heap \<Rightarrow> list_iterator \<Rightarrow> list_iterator \<Rightarrow> addr list \<Rightarrow> (error + addr list) option" where
  "iterate_loop h it e acc =
     (if iterator_ne it e then
        (case deref it of
           Inl err \<Rightarrow> Some (Inl err)
         | Inr a \<Rightarrow>
             (case pre_inc h it of
                Inl err \<Rightarrow> Some (Inl err)
              | Inr it' \<Rightarrow> iterate_loop h it' e (acc @ [a])))
      else Some (Inr acc))"

definition iterate :: "heap \<Rightarrow> intrusive_list \<Rightarrow> (error + addr list) option" where
  "iterate h l =
     (case end_l h l of
        Inl err \<Rightarrow> Some (Inl err)
      | Inr e \<Rightarrow> iterate_loop h (begin_l l) e [])"

section \<open>Concrete states reached from the constructor\<close>

text \<open>
  The container constructed on a heap of default-constructed nodes, with its sentinel at
  address 0; the elements pushed below live at the addresses 1, 2 and 3.
\<close>

definition h_empty :: heap where
  "h_empty = fst (list_ctor fresh_heap 0)"

definition l_empty :: intrusive_list where
  "l_empty = snd (list_ctor fresh_heap 0)"

text \<open>The heap after \<^verbatim>\<open>push_back(e1)\<close> on the empty container.\<close>

definition h_one :: heap where
  "h_one = fresh_heap(0 := \<lparr>prev = Some 1, next = None\<rparr>,
                      1 := \<lparr>prev = None, next = Some 0\<rparr>)"

text \<open>The heap after \<^verbatim>\<open>push_back(e1); push_back(e2)\<close>.\<close>

definition h_two :: heap where
  "h_two = fresh_heap(0 := \<lparr>prev = Some 2, next = None\<rparr>,
                      1 := \<lparr>prev = None, next = Some 2\<rparr>,
                      2 := \<lparr>prev = Some 1, next = None\<rparr>)"

text \<open>The heap after \<^verbatim>\<open>push_back(e1); push_front(e2)\<close>.\<close>

definition h_pf :: heap where
  "h_pf = fresh_heap(0 := \<lparr>prev = Some 1, next = None\<rparr>,
                     1 := \<lparr>prev = Some 2, next = Some 0\<rparr>,
                     2 := \<lparr>prev = None, next = Some 1\<rparr>)"

lemmas state_defs = h_empty_def l_empty_def list_ctor_def fresh_heap_def
  list_element_default_def h_one_def h_two_def h_pf_def

lemmas op_defs = set_prev_def set_next_def push_back_def push_front_def pop_back_def
  pop_front_def INT_MAX_def INT_MIN_def Let_def

section \<open>Properties of the link node\<close>

lemma unlink_fields: "prev (unlink h p p) = None \<and> next (unlink h p p) = None"
  by (simp add: unlink_def Let_def)

lemma unlink_unlinked:
  assumes "prev (h p) = None" and "next (h p) = None"
  shows "unlink h p = h"
proof -
  have same: "(h p)\<lparr>next := None, prev := None\<rparr> = h p"
    using assms by simp
  have "unlink h p = h(p := (h p)\<lparr>next := None, prev := None\<rparr>)"
    using assms by (simp add: unlink_def Let_def)
  also have "\<dots> = h"
    by (simp only: same fun_upd_triv)
  finally show ?thesis .
qed

text \<open>
  Claim C7.  \<^verbatim>\<open>unlink()\<close> is idempotent: for every heap and every node, unlinking the
  node twice in a row leaves exactly the heap (the node and all other nodes) that
  unlinking it once leaves; and unlinking a node whose \<open>prev\<close> and \<open>next\<close> are both
  null changes nothing.
\<close>

theorem unlink_idempotent:
  "unlink (unlink h p) p = unlink h p \<and>
   (prev (h p) = None \<and> next (h p) = None \<longrightarrow> unlink h p = h)"
proof
  show "unlink (unlink h p) p = unlink h p"
    using unlink_fields [of h p] by (intro unlink_unlinked) simp_all
next
  show "prev (h p) = None \<and> next (h p) = None \<longrightarrow> unlink h p = h"
    by (simp add: unlink_unlinked)
qed

theorem unlink_idempotent_witness:
  "unlink (unlink h_pf 1) 1 = unlink h_pf 1 \<and>
   prev (fresh_heap 1) = None \<and> next (fresh_heap 1) = None \<and>
   unlink fresh_heap 1 = fresh_heap"
  using unlink_idempotent [of h_pf 1] unlink_idempotent [of fresh_heap 1]
  by (simp add: fresh_heap_def list_element_default_def)

text \<open>
  Claim C8 as stated: a freshly copied node starts unlinked, whether or not its source
  is linked.  It fails for the node \<open>e1\<close> of the one-element list, whose \<open>next\<close> is the
  sentinel: the copy constructed at address 3 is not unlinked.
\<close>

theorem list_element_copy_counterexample:
  "\<not> (prev (list_element_copy h_one 3 1 3) = None \<and>
      next (list_element_copy h_one 3 1 3) = None)"
  by (simp add: list_element_copy_def state_defs Let_def)

text \<open>
  Claim C8, amended.  Copy construction copies the link fields: a node copy-constructed
  at an address other than its source's starts with the \<open>prev\<close> and the \<open>next\<close> of the
  source (so it starts unlinked exactly when the source is unlinked), and no node other
  than the new one is altered.
\<close>

theorem list_element_copy_copies_links:
  "this \<noteq> other \<Longrightarrow>
   prev (list_element_copy h this other this) = prev (h other) \<and>
   next (list_element_copy h this other this) = next (h other) \<and>
   (\<forall>q. q \<noteq> this \<longrightarrow> list_element_copy h this other q = h q)"
  by (simp add: list_element_copy_def Let_def)

theorem list_element_copy_copies_links_witness:
  "(3::addr) \<noteq> 1 \<and>
   prev (list_element_copy h_one 3 1 3) = prev (h_one 1) \<and>
   next (list_element_copy h_one 3 1 3) = next (h_one 1) \<and>
   (0::addr) \<noteq> 3 \<and> list_element_copy h_one 3 1 0 = h_one 0"
proof -
  have ne: "(3::addr) \<noteq> 1" by simp
  have ne0: "(0::addr) \<noteq> 3" by simp
  note copy = list_element_copy_copies_links [OF ne, of h_one]
  from copy have "list_element_copy h_one 3 1 0 = h_one 0" using ne0 by blast
  with copy ne ne0 show ?thesis by blast
qed

section \<open>General facts about the iterator and the container\<close>

lemma pre_inc_moves_to_next:
  "pre_inc h \<lparr>current = Some c\<rparr> = Inr \<lparr>current = next (h c)\<rparr>"
  by (simp add: pre_inc_def)

lemma pre_dec_moves_to_prev:
  "pre_dec h \<lparr>current = Some c\<rparr> = Inr \<lparr>current = prev (h c)\<rparr>"
  by (simp add: pre_dec_def)

lemma post_inc_moves_to_next:
  "post_inc h \<lparr>current = Some c\<rparr> = Inr (\<lparr>current = Some c\<rparr>, \<lparr>current = next (h c)\<rparr>)"
  by (simp add: post_inc_def)

lemma post_dec_is_post_inc: "post_dec h it = post_inc h it"
  by (simp add: post_dec_def post_inc_def)

lemma back_is_tail: "tail l = Some t \<Longrightarrow> back_l l = Inr t"
  by (simp add: back_l_def)

lemma push_back_size:
  "push_back h l elem = Inr (h', l') \<Longrightarrow> size_l l' = size_l l + 1"
  by (auto simp: push_back_def Let_def split: if_splits option.splits)

lemma push_back_keeps_tail:
  "push_back h l elem = Inr (h', l') \<Longrightarrow> tail l' = tail l"
  by (auto simp: push_back_def Let_def split: if_splits option.splits)

lemma push_front_head:
  "push_front h l elem = Inr (h', l') \<Longrightarrow> head l' = Some elem"
  by (auto simp: push_front_def Let_def split: if_splits option.splits)

lemma push_front_nonempty_size:
  "size_l l \<noteq> 0 \<Longrightarrow> push_front h l elem = Inr (h', l') \<Longrightarrow> size_l l' = size_l l"
  by (auto simp: push_front_def Let_def split: option.splits)

lemma push_front_empty_tail:
  "size_l l = 0 \<Longrightarrow> push_front h l elem = Inr (h', l') \<Longrightarrow> tail l' = Some elem"
  by (auto simp: push_front_def Let_def)

lemma insert_keeps_list:
  "insert_l h l pos elem = Inr (h', l', it) \<Longrightarrow> l' = l \<and> it = \<lparr>current = Some elem\<rparr>"
  by (auto simp: insert_l_def Let_def split: option.splits)

lemma erase_keeps_list:
  "erase h l pos = Inr (h', l', it) \<Longrightarrow> l' = l"
  by (auto simp: erase_def Let_def split: option.splits if_splits)

lemma erase_returns_prev:
  "prev (h p) = Some a \<Longrightarrow>
   erase h l \<lparr>current = Some p\<rparr> = Inr (unlink h p, l, \<lparr>current = Some a\<rparr>)"
  by (simp add: erase_def Let_def)

lemma unlink_joins_neighbours:
  assumes "prev (h p) = Some a" and "next (h p) = Some b" and "a \<noteq> p" and "b \<noteq> p"
  shows "next (unlink h p a) = Some b \<and> prev (unlink h p b) = Some a"
  using assms by (simp add: unlink_def Let_def)

lemma clear_keeps_list:
  "clear h l = Some (h', l') \<Longrightarrow> l' = l"
  by (auto simp: clear_def split: option.splits)

lemma list_move_ctor_copies: "list_move_ctor l = (l, l)"
  by (simp add: list_move_ctor_def)

lemma list_move_assign_no_effect: "list_move_assign d l = (d, l)"
  by (simp add: list_move_assign_def)

lemma iterate_one_push:
  "iterate h_one \<lparr>size_l = 1, head = Some 1, tail = Some 0\<rparr> = Some (Inr [1])"
  by (simp add: state_defs iterate_def end_l_def post_inc_def begin_l_def
      iterate_loop.simps iterator_ne_def deref_def pre_inc_def)

section \<open>The container at concrete inputs\<close>

text \<open>
  Claim C1.  Every container operation preserves the invariant: \<open>size = 0\<close> exactly when
  \<open>head\<close> is the sentinel, the sentinel's \<open>next\<close> is null, its \<open>prev\<close> is the last
  element, and the sentinel is never replaced by a real element.  The code at two inputs:
  \<^verbatim>\<open>push_front(e1)\<close> on the freshly constructed container, whose sentinel is node 0,
  makes \<open>tail\<close> the element itself, links the element to itself and leaves \<open>size = 1\<close>
  with \<open>head = tail\<close>, where \<^verbatim>\<open>push_back(e1)\<close> keeps \<open>tail\<close> on the sentinel; and
  \<^verbatim>\<open>pop_front()\<close> on the one-element container leaves \<open>size = 0\<close> with \<open>head\<close> and
  \<open>tail\<close> null.
\<close>

theorem push_front_replaces_sentinel:
  "l_empty = \<lparr>size_l = 0, head = Some 0, tail = Some 0\<rparr> \<and>
   push_front h_empty l_empty 1 =
     Inr (fresh_heap(1 := \<lparr>prev = Some 1, next = Some 1\<rparr>),
          \<lparr>size_l = 1, head = Some 1, tail = Some 1\<rparr>) \<and>
   push_back h_empty l_empty 1 =
     Inr (h_one, \<lparr>size_l = 1, head = Some 1, tail = Some 0\<rparr>) \<and>
   pop_front h_one \<lparr>size_l = 1, head = Some 1, tail = Some 0\<rparr> =
     Inr (fresh_heap, \<lparr>size_l = 0, head = None, tail = None\<rparr>)"
  by (simp add: state_defs op_defs fun_eq_iff)

text \<open>
  Claim C2.  \<^verbatim>\<open>push_back(elem)\<close> increments \<open>size\<close> by one, \<^verbatim>\<open>back()\<close> then returns
  \<open>elem\<close>, and iterating after a sequence of \<^verbatim>\<open>push_back\<close> calls yields the elements
  in insertion order.  The code at two inputs: after \<^verbatim>\<open>push_back(e1)\<close> on the freshly
  constructed container \<^verbatim>\<open>back()\<close> is bound to node 0, the sentinel, not to \<open>e1\<close>; and
  after \<^verbatim>\<open>push_back(e1); push_back(e2)\<close> the \<open>next\<close> of \<open>e2\<close> is null, so the
  iteration visits \<open>e1\<close> and \<open>e2\<close>, steps to null and dereferences it.
\<close>

theorem push_back_back_and_iteration:
  "l_empty = \<lparr>size_l = 0, head = Some 0, tail = Some 0\<rparr> \<and>
   push_back h_empty l_empty 1 =
     Inr (h_one, \<lparr>size_l = 1, head = Some 1, tail = Some 0\<rparr>) \<and>
   back_l \<lparr>size_l = 1, head = Some 1, tail = Some 0\<rparr> = Inr 0 \<and>
   push_back h_one \<lparr>size_l = 1, head = Some 1, tail = Some 0\<rparr> 2 =
     Inr (h_two, \<lparr>size_l = 2, head = Some 1, tail = Some 0\<rparr>) \<and>
   next (h_two 2) = None \<and>
   iterate h_two \<lparr>size_l = 2, head = Some 1, tail = Some 0\<rparr> = Some (Inl NullDeref)"
  by (simp add: state_defs op_defs fun_eq_iff back_l_def iterate_def end_l_def post_inc_def
      begin_l_def iterate_loop.simps iterator_ne_def deref_def pre_inc_def)

text \<open>
  Claim C3.  \<^verbatim>\<open>push_front(elem)\<close> increments \<open>size\<close> by one and \<^verbatim>\<open>front()\<close> then
  returns \<open>elem\<close>.  The code on the one-element container reached by
  \<^verbatim>\<open>push_back(e1)\<close>: \<^verbatim>\<open>push_front(e2)\<close> makes \<open>e2\<close> the head, and \<^verbatim>\<open>front()\<close>
  returns it, but \<open>size\<close> stays 1.
\<close>

theorem push_front_nonempty_keeps_size:
  "push_back h_empty l_empty 1 =
     Inr (h_one, \<lparr>size_l = 1, head = Some 1, tail = Some 0\<rparr>) \<and>
   push_front h_one \<lparr>size_l = 1, head = Some 1, tail = Some 0\<rparr> 2 =
     Inr (h_pf, \<lparr>size_l = 1, head = Some 2, tail = Some 0\<rparr>) \<and>
   front \<lparr>size_l = 1, head = Some 2, tail = Some 0\<rparr> = Inr 2"
  by (simp add: state_defs op_defs fun_eq_iff front_def)

text \<open>
  Claim C4.  \<^verbatim>\<open>erase(pos)\<close> on a real element unlinks it, decreases \<open>size\<close> by one,
  returns an iterator to the following element (or the sentinel) and joins the former
  neighbours.  The code at two inputs: erasing \<open>e1\<close> from the one-element container
  unlinks it and returns the sentinel, but \<open>size\<close> stays 1 and \<open>head\<close> stays on \<open>e1\<close>;
  erasing \<open>e1\<close> after \<^verbatim>\<open>push_back(e1); push_front(e2)\<close>, where \<open>e1\<close> sits between
  \<open>e2\<close> and the sentinel, joins \<open>e2\<close> and the sentinel, but returns an iterator to
  \<open>e2\<close>, the preceding element, and again leaves \<open>size\<close> as it was.
\<close>

theorem erase_keeps_size_returns_predecessor:
  "push_back h_empty l_empty 1 =
     Inr (h_one, \<lparr>size_l = 1, head = Some 1, tail = Some 0\<rparr>) \<and>
   erase h_one \<lparr>size_l = 1, head = Some 1, tail = Some 0\<rparr> \<lparr>current = Some 1\<rparr> =
     Inr (fresh_heap, \<lparr>size_l = 1, head = Some 1, tail = Some 0\<rparr>, \<lparr>current = Some 0\<rparr>) \<and>
   push_front h_one \<lparr>size_l = 1, head = Some 1, tail = Some 0\<rparr> 2 =
     Inr (h_pf, \<lparr>size_l = 1, head = Some 2, tail = Some 0\<rparr>) \<and>
   erase h_pf \<lparr>size_l = 1, head = Some 2, tail = Some 0\<rparr> \<lparr>current = Some 1\<rparr> =
     Inr (fresh_heap(0 := \<lparr>prev = Some 2, next = None\<rparr>,
                     2 := \<lparr>prev = None, next = Some 0\<rparr>),
          \<lparr>size_l = 1, head = Some 2, tail = Some 0\<rparr>, \<lparr>current = Some 2\<rparr>)"
  by (simp add: state_defs op_defs fun_eq_iff erase_def unlink_def)

text \<open>
  Claim C5.  After \<^verbatim>\<open>clear()\<close> the container has \<open>size = 0\<close> and \<open>head\<close> on the
  sentinel, \<^verbatim>\<open>empty()\<close> is true and a following \<^verbatim>\<open>push_back\<close> gives a one-element
  list.  The code on the one-element container reached by \<^verbatim>\<open>push_back(e1)\<close>:
  \<^verbatim>\<open>clear()\<close> returns with every node unlinked but with \<open>size = 1\<close> and \<open>head\<close> still
  on \<open>e1\<close>, \<^verbatim>\<open>empty()\<close> is false, and \<^verbatim>\<open>push_back(e2)\<close> then takes the non-empty
  branch and dereferences the sentinel's null \<open>prev\<close>.
\<close>

theorem clear_keeps_size_and_head:
  "push_back h_empty l_empty 1 =
     Inr (h_one, \<lparr>size_l = 1, head = Some 1, tail = Some 0\<rparr>) \<and>
   clear h_one \<lparr>size_l = 1, head = Some 1, tail = Some 0\<rparr> =
     Some (fresh_heap, \<lparr>size_l = 1, head = Some 1, tail = Some 0\<rparr>) \<and>
   empty_l \<lparr>size_l = 1, head = Some 1, tail = Some 0\<rparr> = False \<and>
   push_back fresh_heap \<lparr>size_l = 1, head = Some 1, tail = Some 0\<rparr> 2 = Inl NullDeref"
  by (simp add: state_defs op_defs fun_eq_iff clear_def clear_loop.simps unlink_def
      empty_l_def)

text \<open>
  Claim C6.  Moving a container transfers \<open>head\<close>, \<open>tail\<close> and \<open>size\<close> into the
  destination and leaves the source empty, with \<open>size = 0\<close> and its \<open>head\<close> on its own
  sentinel.  The code on the one-element container reached by \<^verbatim>\<open>push_back(e1)\<close>: the
  move constructor gives a destination equal to the source and leaves the source as it
  was, with \<open>size = 1\<close> and the same \<open>head\<close> and \<open>tail\<close> as the destination; move
  assignment into the freshly constructed container leaves that container empty and the
  source as it was.
\<close>

theorem move_leaves_source_linked:
  "push_back h_empty l_empty 1 =
     Inr (h_one, \<lparr>size_l = 1, head = Some 1, tail = Some 0\<rparr>) \<and>
   list_move_ctor \<lparr>size_l = 1, head = Some 1, tail = Some 0\<rparr> =
     (\<lparr>size_l = 1, head = Some 1, tail = Some 0\<rparr>,
      \<lparr>size_l = 1, head = Some 1, tail = Some 0\<rparr>) \<and>
   list_move_assign l_empty \<lparr>size_l = 1, head = Some 1, tail = Some 0\<rparr> =
     (\<lparr>size_l = 0, head = Some 0, tail = Some 0\<rparr>,
      \<lparr>size_l = 1, head = Some 1, tail = Some 0\<rparr>)"
  by (simp add: state_defs op_defs fun_eq_iff list_move_ctor_def list_move_assign_def)

text \<open>
  Claim C9.  \<^verbatim>\<open>insert(end(), elem)\<close> has the same observable effect as
  \<^verbatim>\<open>push_back(elem)\<close>.  The code on the freshly constructed container: \<^verbatim>\<open>end()\<close> is
  the iterator on the sentinel, \<^verbatim>\<open>insert(end(), e1)\<close> leaves every node unlinked,
  \<open>size = 0\<close> and \<open>head\<close> on the sentinel, while \<^verbatim>\<open>push_back(e1)\<close> gives \<open>size = 1\<close>,
  \<open>head\<close> on \<open>e1\<close> and the sentinel's \<open>prev\<close> on \<open>e1\<close>.
\<close>

theorem insert_at_end_differs_from_push_back:
  "end_l h_empty l_empty = Inr \<lparr>current = Some 0\<rparr> \<and>
   insert_l h_empty l_empty \<lparr>current = Some 0\<rparr> 1 =
     Inr (fresh_heap, \<lparr>size_l = 0, head = Some 0, tail = Some 0\<rparr>, \<lparr>current = Some 1\<rparr>) \<and>
   push_back h_empty l_empty 1 =
     Inr (h_one, \<lparr>size_l = 1, head = Some 1, tail = Some 0\<rparr>) \<and>
   h_one 0 = \<lparr>prev = Some 1, next = None\<rparr> \<and>
   fresh_heap 0 = \<lparr>prev = None, next = None\<rparr>"
  by (simp add: state_defs op_defs fun_eq_iff insert_l_def end_l_def post_inc_def)

text \<open>
  Claim C10.  \<^verbatim>\<open>++it\<close> moves to \<open>next\<close> and \<^verbatim>\<open>--it\<close> to \<open>prev\<close>, in the prefix and
  in the postfix forms, the postfix forms returning the iterator as it was.  The code
  on the element \<open>e1\<close> after \<^verbatim>\<open>push_back(e1); push_front(e2)\<close>, whose \<open>prev\<close> is
  \<open>e2\<close> and whose \<open>next\<close> is the sentinel: prefix \<^verbatim>\<open>--it\<close> moves to \<open>e2\<close>, postfix
  \<^verbatim>\<open>it--\<close> returns the iterator on \<open>e1\<close> but moves to the sentinel, the \<open>next\<close>.
\<close>

theorem post_dec_moves_to_next:
  "push_back h_empty l_empty 1 =
     Inr (h_one, \<lparr>size_l = 1, head = Some 1, tail = Some 0\<rparr>) \<and>
   push_front h_one \<lparr>size_l = 1, head = Some 1, tail = Some 0\<rparr> 2 =
     Inr (h_pf, \<lparr>size_l = 1, head = Some 2, tail = Some 0\<rparr>) \<and>
   h_pf 1 = \<lparr>prev = Some 2, next = Some 0\<rparr> \<and>
   pre_dec h_pf \<lparr>current = Some 1\<rparr> = Inr \<lparr>current = Some 2\<rparr> \<and>
   post_dec h_pf \<lparr>current = Some 1\<rparr> = Inr (\<lparr>current = Some 1\<rparr>, \<lparr>current = Some 0\<rparr>)"
  by (simp add: state_defs op_defs fun_eq_iff pre_dec_def post_dec_def)

end
